theory Spec2Isabelle
  imports Complex_Main
begin

section \<open>Pelorus: a GraphQL adapter for Waterline collections\<close>

text \<open>
  A shallow embedding of \<^verbatim>\<open>src/adapter.js\<close>. The adapter turns Waterline collections
  into the root query type of a GraphQL schema. Its own code is embedded function by
  function; what it calls in lodash, Joi and graphql-js is embedded as far as the adapter's
  results depend on it, and every such place says so.

  Conventions of the embedding:
  \<^item> a JavaScript object is an association list in the enumeration order of its own
    keys; writing a property (\<open>obj_put\<close>) replaces the entry of an existing key in place and
    appends a new key, as property assignment does. Property names are ordinary names:
    the prototype chain (\<^verbatim>\<open>__proto__\<close>, the members of \<^verbatim>\<open>Object.prototype\<close>) and
    array-index keys, which JavaScript enumerates first, are left out;
  \<^item> strings are HOL strings and case mapping is that of the ASCII letters;
  \<^item> a JavaScript number is a rational; the rounding to a double is left out;
  \<^item> an exception is a value of type \<open>error\<close>: a function that can throw returns
    \<open>error + 'a\<close>, and a procedure that mutates the module state returns the state
    reached together with the exception, if any.
\<close>

subsection \<open>Strings\<close>

definition toLowerChar :: "char \<Rightarrow> char" where
  "toLowerChar c =
     (case map_of (zip ''ABCDEFGHIJKLMNOPQRSTUVWXYZ'' ''abcdefghijklmnopqrstuvwxyz'') c of
        None \<Rightarrow> c
      | Some l \<Rightarrow> l)"

definition toUpperChar :: "char \<Rightarrow> char" where
  "toUpperChar c =
     (case map_of (zip ''abcdefghijklmnopqrstuvwxyz'' ''ABCDEFGHIJKLMNOPQRSTUVWXYZ'') c of
        None \<Rightarrow> c
      | Some u \<Rightarrow> u)"

text \<open>\<^verbatim>\<open>String.prototype.toLowerCase\<close> and \<^verbatim>\<open>toUpperCase\<close>.\<close>

definition toLowerCase :: "string \<Rightarrow> string" where
  "toLowerCase s = map toLowerChar s"

definition toUpperCase :: "string \<Rightarrow> string" where
  "toUpperCase s = map toUpperChar s"

text \<open>
  lodash's \<^verbatim>\<open>_.capitalize\<close>: the first character in upper case, the rest in lower
  case (lodash 4; lodash 3 leaves the rest as it is, which changes no query field name,
  since those are lower-cased again).
\<close>

fun capitalize :: "string \<Rightarrow> string" where
  "capitalize [] = []"
| "capitalize (c # cs) = toUpperChar c # toLowerCase cs"

subsection \<open>JavaScript values and objects\<close>

datatype jsval =
    JUndefined
  | JNull
  | JBool bool
  | JNum rat
  | JStr string
  | JArr "jsval list"
  | JObj "(string \<times> jsval) list"

type_synonym jsobj = "(string \<times> jsval) list"

datatype error =
    ValidationError  \<comment> \<open>thrown by \<^verbatim>\<open>Joi.assert\<close>: the configuration error\<close>
  | TypeError        \<comment> \<open>thrown by the runtime: a property read or a call on undefined or null\<close>
  | GraphQLError     \<comment> \<open>thrown by the constructor \<^verbatim>\<open>GraphQLSchema\<close> of graphql-js\<close>

text \<open>\<^verbatim>\<open>obj[k] = v\<close> on an object.\<close>

fun obj_put :: "(string \<times> 'v) list \<Rightarrow> string \<Rightarrow> 'v \<Rightarrow> (string \<times> 'v) list" where
  "obj_put [] k v = [(k, v)]"
| "obj_put ((k', v') # kvs) k v =
     (if k' = k then (k, v) # kvs else (k', v') # obj_put kvs k v)"

text \<open>\<^verbatim>\<open>obj.hasOwnProperty(k)\<close>.\<close>

definition hasOwnProperty :: "(string \<times> 'v) list \<Rightarrow> string \<Rightarrow> bool" where
  "hasOwnProperty obj k = (map_of obj k \<noteq> None)"




text \<open>\<^verbatim>\<open>_.assign(target, source)\<close>: every own key of the source is written to the target.\<close>

definition assign :: "(string \<times> 'v) list \<Rightarrow> (string \<times> 'v) list \<Rightarrow> (string \<times> 'v) list" where
  "assign target source = foldl (\<lambda>t (k, v). obj_put t k v) target source"

subsection \<open>The literal parser of the JSON scalar\<close>

text \<open>
  A literal of the query text, as graphql-js parses it: the value nodes of its grammar.
  A number node carries the number its token denotes, an object node its fields as
  pairs of the field's name and value node. \<open>Variable\<close> and \<open>NullValue\<close> are the value
  nodes \<^verbatim>\<open>getParser\<close> has no case for.
\<close>

datatype ast =
    IntValue int
  | FloatValue rat
  | BooleanValue bool
  | StringValue string
  | EnumValue string
  | ListValue "ast list"
  | ObjectValue "(string \<times> ast) list"
  | Variable string
  | NullValue

text \<open>\<^verbatim>\<open>tree.kind\<close>: the constants of \<^verbatim>\<open>GraphQlLanguage.Kind\<close>.\<close>

fun kind :: "ast \<Rightarrow> string" where
  "kind (IntValue n) = ''IntValue''"
| "kind (FloatValue x) = ''FloatValue''"
| "kind (BooleanValue b) = ''BooleanValue''"
| "kind (StringValue s) = ''StringValue''"
| "kind (EnumValue s) = ''EnumValue''"
| "kind (ListValue vs) = ''ListValue''"
| "kind (ObjectValue fs) = ''ObjectValue''"
| "kind (Variable n) = ''Variable''"
| "kind NullValue = ''NullValue''"

text \<open>The functions \<^verbatim>\<open>getParser\<close> returns, by the case that returns them.\<close>

datatype parser = IntParser | FloatParser | BooleanParser | StringParser | EnumParser
  | ListParser | ObjectParser

text \<open>\<^verbatim>\<open>internals.getParser\<close>: \<open>None\<close> is the \<^verbatim>\<open>null\<close> of the default case.\<close>

definition getParser :: "string \<Rightarrow> parser option" where
  "getParser k =
     (if k = ''IntValue'' then Some IntParser
      else if k = ''FloatValue'' then Some FloatParser
      else if k = ''BooleanValue'' then Some BooleanParser
      else if k = ''StringValue'' then Some StringParser
      else if k = ''EnumValue'' then Some EnumParser
      else if k = ''ListValue'' then Some ListParser
      else if k = ''ObjectValue'' then Some ObjectParser
      else None)"

text \<open>
  The literal parsers of the built-in scalars of graphql-js. Each checks the node's kind
  and answers \<^verbatim>\<open>null\<close> for another kind; \<^verbatim>\<open>GraphQLInt\<close> answers \<^verbatim>\<open>null\<close> for an
  integer outside 32 bits, and \<^verbatim>\<open>GraphQLFloat\<close> accepts an integer token too.
\<close>

fun GraphQLInt_parseLiteral :: "ast \<Rightarrow> jsval" where
  "GraphQLInt_parseLiteral (IntValue n) =
     (if - (2 ^ 31) \<le> n \<and> n \<le> 2 ^ 31 - 1 then JNum (of_int n) else JNull)"
| "GraphQLInt_parseLiteral t = JNull"

fun GraphQLFloat_parseLiteral :: "ast \<Rightarrow> jsval" where
  "GraphQLFloat_parseLiteral (FloatValue x) = JNum x"
| "GraphQLFloat_parseLiteral (IntValue n) = JNum (of_int n)"
| "GraphQLFloat_parseLiteral t = JNull"

fun GraphQLBoolean_parseLiteral :: "ast \<Rightarrow> jsval" where
  "GraphQLBoolean_parseLiteral (BooleanValue b) = JBool b"
| "GraphQLBoolean_parseLiteral t = JNull"

fun GraphQLString_parseLiteral :: "ast \<Rightarrow> jsval" where
  "GraphQLString_parseLiteral (StringValue s) = JStr s"
| "GraphQLString_parseLiteral t = JNull"

text \<open>
  \<^verbatim>\<open>GraphQLJson.parseLiteral\<close> with the functions of \<^verbatim>\<open>getParser\<close>:
  \<open>parseLiteral\<close> looks the parser of the node's kind up and calls it, and the call on
  \<^verbatim>\<open>null\<close> throws; \<open>run_parser\<close> is the body of each function; \<open>parse_values\<close> is
  \<^verbatim>\<open>tree.values.map\<close> and \<open>parse_fields\<close> is \<^verbatim>\<open>tree.fields.reduce\<close>, both
  left at the first node that throws. A parser on a node without the member it reads
  (\<^verbatim>\<open>values\<close>, \<^verbatim>\<open>fields\<close>) throws; \<open>getParser\<close> never pairs them so.
\<close>

fun parseLiteral :: "ast \<Rightarrow> error + jsval"
  and run_parser :: "parser \<Rightarrow> ast \<Rightarrow> error + jsval"
  and parse_values :: "ast list \<Rightarrow> error + jsval list"
  and parse_fields :: "jsobj \<Rightarrow> (string \<times> ast) list \<Rightarrow> error + jsobj"
where
  "parseLiteral tree =
     (case getParser (kind tree) of
        None \<Rightarrow> Inl TypeError
      | Some p \<Rightarrow> run_parser p tree)"
| "run_parser IntParser tree = Inr (GraphQLInt_parseLiteral tree)"
| "run_parser FloatParser tree = Inr (GraphQLFloat_parseLiteral tree)"
| "run_parser BooleanParser tree = Inr (GraphQLBoolean_parseLiteral tree)"
| "run_parser StringParser tree = Inr (GraphQLString_parseLiteral tree)"
| "run_parser EnumParser tree =
     (case tree of EnumValue s \<Rightarrow> Inr (JStr s) | _ \<Rightarrow> Inr (JStr ''undefined''))"
| "run_parser ListParser tree =
     (case tree of
        ListValue vs \<Rightarrow> (case parse_values vs of Inl e \<Rightarrow> Inl e | Inr xs \<Rightarrow> Inr (JArr xs))
      | _ \<Rightarrow> Inl TypeError)"
| "run_parser ObjectParser tree =
     (case tree of
        ObjectValue fs \<Rightarrow> (case parse_fields [] fs of Inl e \<Rightarrow> Inl e | Inr kvs \<Rightarrow> Inr (JObj kvs))
      | _ \<Rightarrow> Inl TypeError)"
| "parse_values [] = Inr []"
| "parse_values (node # nodes) =
     (case parseLiteral node of
        Inl e \<Rightarrow> Inl e
      | Inr x \<Rightarrow> (case parse_values nodes of Inl e \<Rightarrow> Inl e | Inr xs \<Rightarrow> Inr (x # xs)))"
| "parse_fields acc [] = Inr acc"
| "parse_fields acc (field # fields) =
     (case parseLiteral (snd field) of
        Inl e \<Rightarrow> Inl e
      | Inr x \<Rightarrow> parse_fields (obj_put acc (fst field) x) fields)"

subsection \<open>Collections and GraphQL types\<close>

text \<open>
  The rules of one attribute, \<^verbatim>\<open>collection._attributes[key]\<close>: an object whose
  properties are all optional. \<open>r_model\<close>, \<open>r_collection\<close>, \<open>r_via\<close> and \<open>r_type\<close> are
  \<open>None\<close> when the property is missing; \<open>r_required\<close>, \<open>r_primaryKey\<close> and \<open>r_unique\<close>
  say that the property is there and truthy, which is all the adapter asks of them.
\<close>

record rules =
  r_model :: "string option"
  r_collection :: "string option"
  r_via :: "string option"
  r_type :: "string option"
  r_required :: bool
  r_primaryKey :: bool
  r_unique :: bool

text \<open>
  A Waterline collection as the adapter reads it: \<^verbatim>\<open>adapter.identity\<close>,
  \<^verbatim>\<open>_attributes\<close> and \<^verbatim>\<open>primaryKey\<close>. Its methods \<^verbatim>\<open>findOne\<close> and \<^verbatim>\<open>find\<close> belong
  to the store; a call of one is the value \<open>store_call\<close> below.
\<close>

record collection =
  identity :: string
  attrs :: "(string \<times> rules) list"
  primaryKey :: string

text \<open>
  The types of graphql-js the adapter builds. An object type is known by its name and by
  the collection its field thunk closes over; \<open>UndefinedType\<close> is what a read of the
  type registry gives for a missing key.
\<close>

datatype gqltype =
    GraphQLInt
  | GraphQLBoolean
  | GraphQLFloat
  | GraphQLJson
  | GraphQLString
  | GraphQLNonNull gqltype
  | GraphQLList gqltype
  | GraphQLObjectType string collection
  | UndefinedType

text \<open>
  \<^verbatim>\<open>internals.convertToGraphQlType\<close>. The argument is \<^verbatim>\<open>rules.type\<close>, \<open>None\<close> when
  the attribute has none: \<^verbatim>\<open>type.toLowerCase()\<close> on undefined throws.
\<close>

definition convertToGraphQlType :: "string option \<Rightarrow> error + gqltype" where
  "convertToGraphQlType type =
     (case type of
        None \<Rightarrow> Inl TypeError
      | Some t \<Rightarrow>
          (let l = toLowerCase t in
           if l = ''integer'' then Inr GraphQLInt
           else if l = ''boolean'' then Inr GraphQLBoolean
           else if l = ''float'' then Inr GraphQLFloat
           else if l = ''json'' then Inr GraphQLJson
           else Inr GraphQLString))"

text \<open>
  \<^verbatim>\<open>convertToGraphQLType\<close> of \<^verbatim>\<open>src/lib/adapter.js\<close>, the older adapter: it takes the
  rules, and has no case for json.
\<close>

definition convertToGraphQLType_lib :: "rules \<Rightarrow> error + gqltype" where
  "convertToGraphQLType_lib rs =
     (case r_type rs of
        None \<Rightarrow> Inl TypeError
      | Some t \<Rightarrow>
          (let l = toLowerCase t in
           if l = ''string'' then Inr GraphQLString
           else if l = ''integer'' then Inr GraphQLInt
           else if l = ''boolean'' then Inr GraphQLBoolean
           else if l = ''float'' then Inr GraphQLFloat
           else Inr GraphQLString))"

subsection \<open>The module state\<close>

text \<open>
  The value of \<^verbatim>\<open>collections\<close>: a mapping from names to collections, a sequence of
  collections, or a value that is neither (\<open>CollInvalid\<close>), which only a configuration
  can hold.
\<close>

datatype collections = CollObject "(string \<times> collection) list" | CollArray "collection list"
  | CollInvalid

text \<open>An argument of a query field, \<^verbatim>\<open>{name, type}\<close>.\<close>

record arg =
  arg_name :: string
  arg_type :: gqltype

text \<open>
  The resolver of a query field, by the collection it closes over:
  \<^verbatim>\<open>(object, criteria) => collection.findOne(criteria).populateAll()\<close> and the same
  with \<^verbatim>\<open>find\<close>.
\<close>

datatype query_resolver = FindOne collection | Find collection

record query_field =
  qf_type :: gqltype
  qf_args :: "(string \<times> arg) list"
  qf_resolve :: query_resolver

text \<open>
  \<^verbatim>\<open>internals.defaults\<close>, the one mutable object of the module, with its four keys,
  and the lines written by \<^verbatim>\<open>console.warn\<close>.
\<close>

record internals =
  collections :: collections
  exposeQueryLanguage :: bool
  modelQueries :: "(string \<times> query_field) list"
  types :: "(string \<times> gqltype) list"
  console :: "string list"

text \<open>The state when the module is loaded.\<close>

definition defaults :: internals where
  "defaults =
     \<lparr>collections = CollObject [], exposeQueryLanguage = False, modelQueries = [], types = [],
      console = []\<rparr>"

text \<open>
  The object a caller passes to \<^verbatim>\<open>getGraphQlSchema\<close>: its two known keys, each there
  or not, and the names of its other own keys.
\<close>

record config =
  cfg_collections :: "collections option"
  cfg_exposeQueryLanguage :: "bool option"
  cfg_unknown :: "string list"

text \<open>\<^verbatim>\<open>internals.defaults.types[k]\<close>.\<close>

definition lookup_type :: "internals \<Rightarrow> string \<Rightarrow> gqltype" where
  "lookup_type st k = (case map_of (types st) k of None \<Rightarrow> UndefinedType | Some t \<Rightarrow> t)"


text \<open>The collections \<^verbatim>\<open>_.forEach\<close> visits, in its order.\<close>

fun collection_list :: "collections \<Rightarrow> collection list" where
  "collection_list (CollObject kvs) = map snd kvs"
| "collection_list (CollArray cs) = cs"
| "collection_list CollInvalid = []"

subsection \<open>The type builder\<close>

text \<open>
  \<^verbatim>\<open>internals.buildType\<close>: registers the object type of a collection under the
  capitalized identity. The type's fields are a thunk, \<open>type_fields\<close> below.
\<close>

definition buildType :: "collection \<Rightarrow> internals \<Rightarrow> internals" where
  "buildType c st =
     (let collectionIdentity = capitalize (identity c) in
      st\<lparr>types := obj_put (types st) collectionIdentity
                     (GraphQLObjectType (capitalize collectionIdentity) c)\<rparr>)"





subsection \<open>Resolvers\<close>






subsection \<open>The query-field builder\<close>

text \<open>\<^verbatim>\<open>findManyArgs\<close> as \<^verbatim>\<open>buildQueryFields\<close> sets it up before its loop.\<close>

definition builtin_args :: "internals \<Rightarrow> (string \<times> arg) list" where
  "builtin_args st =
     [(''limit'', \<lparr>arg_name = ''limit'', arg_type = GraphQLInt\<rparr>),
      (''skip'', \<lparr>arg_name = ''skip'', arg_type = GraphQLInt\<rparr>),
      (''sort'', \<lparr>arg_name = ''sort'', arg_type = GraphQLString\<rparr>)]
     @ (if exposeQueryLanguage st
        then [(''where'', \<lparr>arg_name = ''where'', arg_type = GraphQLJson\<rparr>)]
        else [])"

text \<open>The line \<^verbatim>\<open>console.warn\<close> writes for attribute \<open>key\<close> of the collection.\<close>

definition warning :: "string \<Rightarrow> string \<Rightarrow> string" where
  "warning collectionIdentity key =
     ''Field '' @ [CHR 0x27] @ toLowerCase collectionIdentity @ ''.'' @ key @ [CHR 0x27]
     @ '' will not be individually queryable. Use '' @ [CHR 0x27] @ ''where'' @ [CHR 0x27]
     @ '' instead''"

definition console_warn :: "string \<Rightarrow> internals \<Rightarrow> internals" where
  "console_warn line st = st\<lparr>console := console st @ [line]\<rparr>"

text \<open>
  The loop of \<^verbatim>\<open>buildQueryFields\<close> over the attributes, from \<^verbatim>\<open>findOneArgs\<close> and
  \<^verbatim>\<open>findManyArgs\<close> as they stand. It stops where \<^verbatim>\<open>convertToGraphQlType\<close> throws.
\<close>

fun query_args ::
  "string \<Rightarrow> (string \<times> rules) list \<Rightarrow> (string \<times> arg) list \<Rightarrow> (string \<times> arg) list \<Rightarrow> internals
     \<Rightarrow> (error + (string \<times> arg) list \<times> (string \<times> arg) list) \<times> internals" where
  "query_args collectionIdentity [] findOneArgs findManyArgs st =
     (Inr (findOneArgs, findManyArgs), st)"
| "query_args collectionIdentity ((key, rs) # rest) findOneArgs findManyArgs st =
     (if \<not> hasOwnProperty findManyArgs key then
        (if r_collection rs = None then
           (if r_primaryKey rs \<or> r_unique rs then
              (case convertToGraphQlType (r_type rs) of
                 Inl e \<Rightarrow> (Inl e, st)
               | Inr t \<Rightarrow>
                   query_args collectionIdentity rest
                     (obj_put findOneArgs key \<lparr>arg_name = key, arg_type = t\<rparr>) findManyArgs st)
            else
              (case convertToGraphQlType (r_type rs) of
                 Inl e \<Rightarrow> (Inl e, st)
               | Inr t \<Rightarrow>
                   query_args collectionIdentity rest findOneArgs
                     (obj_put findManyArgs key \<lparr>arg_name = key, arg_type = t\<rparr>) st))
         else query_args collectionIdentity rest findOneArgs findManyArgs st)
      else if exposeQueryLanguage st then
        query_args collectionIdentity rest findOneArgs findManyArgs
          (console_warn (warning collectionIdentity key) st)
      else query_args collectionIdentity rest findOneArgs findManyArgs st)"

text \<open>
  \<^verbatim>\<open>internals.buildQueryFields\<close>: the exception, if one was thrown, and the state
  reached.
\<close>

definition buildQueryFields :: "collection \<Rightarrow> internals \<Rightarrow> error option \<times> internals" where
  "buildQueryFields c st =
     (let collectionIdentity = capitalize (identity c) in
      case query_args collectionIdentity (attrs c) [] (builtin_args st) st of
        (Inl e, st') \<Rightarrow> (Some e, st')
      | (Inr (findOneArgs, findManyArgs), st') \<Rightarrow>
          (let fields0 =
                 obj_put [] (toLowerCase collectionIdentity)
                   \<lparr>qf_type = lookup_type st' collectionIdentity, qf_args = findOneArgs,
                    qf_resolve = FindOne c\<rparr>;
               fields1 =
                 obj_put fields0 (toLowerCase collectionIdentity @ ''s'')
                   \<lparr>qf_type = GraphQLList (lookup_type st' collectionIdentity),
                    qf_args = findManyArgs, qf_resolve = Find c\<rparr>
           in (None, st'\<lparr>modelQueries := assign (modelQueries st') fields1\<rparr>)))"

subsection \<open>The schema assembler\<close>

fun forEach_buildQueryFields :: "collection list \<Rightarrow> internals \<Rightarrow> error option \<times> internals" where
  "forEach_buildQueryFields [] st = (None, st)"
| "forEach_buildQueryFields (c # cs) st =
     (case buildQueryFields c st of
        (Some e, st') \<Rightarrow> (Some e, st')
      | (None, st') \<Rightarrow> forEach_buildQueryFields cs st')"

text \<open>
  \<^verbatim>\<open>internals.getQueries\<close>: both loops over the collections. The object type it
  returns, named Schema, has the thunk \<^verbatim>\<open>() => internals.defaults.modelQueries\<close> for
  its fields: the registry of the state reached.
\<close>

definition getQueries :: "internals \<Rightarrow> error option \<times> internals" where
  "getQueries st =
     forEach_buildQueryFields (collection_list (collections st))
       (fold buildType (collection_list (collections st)) st)"

text \<open>
  \<^verbatim>\<open>Joi.assert(config, internals.configSchema)\<close>: \<^verbatim>\<open>collections\<close> is required and
  is an object or an array, and no key but the two of the schema is allowed. (A value of
  \<^verbatim>\<open>exposeQueryLanguage\<close> that is no boolean is outside the type \<open>config\<close>.)
\<close>

definition joi_assert :: "config \<Rightarrow> error option" where
  "joi_assert cfg =
     (if cfg_unknown cfg \<noteq> [] then Some ValidationError
      else case cfg_collections cfg of
             None \<Rightarrow> Some ValidationError
           | Some CollInvalid \<Rightarrow> Some ValidationError
           | Some cs \<Rightarrow> None)"

text \<open>
  \<^verbatim>\<open>_.defaults(config, internals.defaults)\<close> writes to \<open>config\<close> every key of the
  defaults that \<open>config\<close> leaves undefined, and returns \<open>config\<close>, which becomes
  \<^verbatim>\<open>internals.defaults\<close>. \<open>merged\<close> is the module state after the assignment,
  \<open>mutated\<close> the caller's object: it has gained the keys \<^verbatim>\<open>modelQueries\<close> and
  \<^verbatim>\<open>types\<close>, which hold the registries of the module.
\<close>

definition merged :: "config \<Rightarrow> internals \<Rightarrow> internals" where
  "merged cfg st =
     st\<lparr>collections := (case cfg_collections cfg of None \<Rightarrow> collections st | Some cs \<Rightarrow> cs),
        exposeQueryLanguage :=
          (case cfg_exposeQueryLanguage cfg of None \<Rightarrow> exposeQueryLanguage st | Some b \<Rightarrow> b)\<rparr>"

definition mutated :: "config \<Rightarrow> internals \<Rightarrow> config" where
  "mutated cfg st =
     \<lparr>cfg_collections = Some (collections (merged cfg st)),
      cfg_exposeQueryLanguage = Some (exposeQueryLanguage (merged cfg st)),
      cfg_unknown = cfg_unknown cfg @ [''modelQueries'', ''types'']\<rparr>"

text \<open>The schema built: the name of its query type and the fields of that type.\<close>

record schema =
  query_name :: string
  query_fields :: "(string \<times> query_field) list"

text \<open>
  \<^verbatim>\<open>getGraphQlSchema\<close>. It returns the schema or the exception, the module state
  reached, and the caller's configuration object as the call leaves it. The constructor
  \<^verbatim>\<open>GraphQLSchema\<close> belongs to graphql-js, and what it checks depends on the version
  installed (an older one refuses a query type without fields, a newer one checks nothing
  at construction): \<open>accepts\<close> says whether it accepts what the state holds. The fields
  of the query type are read when the schema is constructed.
\<close>

definition getGraphQlSchema ::
  "(internals \<Rightarrow> bool) \<Rightarrow> config \<Rightarrow> internals \<Rightarrow> (error + schema) \<times> internals \<times> config" where
  "getGraphQlSchema accepts cfg st =
     (case joi_assert cfg of
        Some e \<Rightarrow> (Inl e, st, cfg)
      | None \<Rightarrow>
          (case getQueries (merged cfg st) of
             (Some e, st') \<Rightarrow> (Inl e, st', mutated cfg st)
           | (None, st') \<Rightarrow>
               (if accepts st'
                then (Inr \<lparr>query_name = ''Schema'', query_fields = modelQueries st'\<rparr>, st',
                      mutated cfg st)
                else (Inl GraphQLError, st', mutated cfg st))))"

subsection \<open>A store that filters by equality\<close>



subsection \<open>Vocabulary of the statements\<close>

text \<open>
  The argument \<^verbatim>\<open>{name: key, type: internals.convertToGraphQlType(rules.type)}\<close> of an
  attribute that has a type, with its key.
\<close>

definition arg_of :: "string \<times> rules \<Rightarrow> string \<times> arg" where
  "arg_of kr =
     (fst kr,
      \<lparr>arg_name = fst kr,
       arg_type =
         (case convertToGraphQlType (r_type (snd kr)) of
            Inl e \<Rightarrow> UndefinedType
          | Inr t \<Rightarrow> t)\<rparr>)"

text \<open>An attribute flagged as primary key or as unique.\<close>

definition identifying :: "string \<times> rules \<Rightarrow> bool" where
  "identifying kr = (r_primaryKey (snd kr) \<or> r_unique (snd kr))"

text \<open>
  An attribute that becomes an argument: its name is none of the names in \<open>K\<close> (the
  names of the built-in arguments) and it has no property \<^verbatim>\<open>collection\<close>.
\<close>

definition exposed :: "string set \<Rightarrow> string \<times> rules \<Rightarrow> bool" where
  "exposed K kr = (fst kr \<notin> K \<and> r_collection (snd kr) = None)"

text \<open>The names of the built-in arguments of a plural field in a state.\<close>

definition builtin_names :: "internals \<Rightarrow> string set" where
  "builtin_names st = fst ` set (builtin_args st)"

text \<open>The two query fields \<^verbatim>\<open>buildQueryFields\<close> registers for a collection.\<close>

definition singular_field :: "internals \<Rightarrow> collection \<Rightarrow> query_field" where
  "singular_field st c =
     \<lparr>qf_type = lookup_type st (capitalize (identity c)),
      qf_args = map arg_of [kr \<leftarrow> attrs c. exposed (builtin_names st) kr \<and> identifying kr],
      qf_resolve = FindOne c\<rparr>"

definition plural_field :: "internals \<Rightarrow> collection \<Rightarrow> query_field" where
  "plural_field st c =
     \<lparr>qf_type = GraphQLList (lookup_type st (capitalize (identity c))),
      qf_args =
        builtin_args st
        @ map arg_of [kr \<leftarrow> attrs c. exposed (builtin_names st) kr \<and> \<not> identifying kr],
      qf_resolve = Find c\<rparr>"

text \<open>The lines \<^verbatim>\<open>buildQueryFields\<close> writes to the console for a collection.\<close>

definition warnings :: "internals \<Rightarrow> collection \<Rightarrow> string list" where
  "warnings st c =
     (if exposeQueryLanguage st
      then map (warning (capitalize (identity c)))
             [k \<leftarrow> map fst (attrs c). k \<in> builtin_names st]
      else [])"


text \<open>The query field of collection \<open>c\<close> that has the name \<open>n\<close>.\<close>

definition field_named :: "internals \<Rightarrow> collection \<Rightarrow> string \<Rightarrow> query_field" where
  "field_named st c n =
     (if n = toLowerCase (identity c) then singular_field st c else plural_field st c)"

text \<open>The registry after the two query fields of a collection are written to it.\<close>

definition register ::
  "internals \<Rightarrow> (string \<times> query_field) list \<Rightarrow> collection \<Rightarrow> (string \<times> query_field) list" where
  "register st m c =
     obj_put (obj_put m (toLowerCase (identity c)) (singular_field st c))
       (toLowerCase (identity c) @ ''s'') (plural_field st c)"

text \<open>
  A collection \<^verbatim>\<open>buildQueryFields\<close> can build in a state: its attribute names are
  distinct, as the keys of an object are, and the attributes that become arguments have
  a type.
\<close>

definition buildable :: "internals \<Rightarrow> collection \<Rightarrow> bool" where
  "buildable st c =
     (distinct (map fst (attrs c))
      \<and> list_all (\<lambda>kr. \<not> exposed (builtin_names st) kr \<or> r_type (snd kr) \<noteq> None) (attrs c))"



subsection \<open>Example collections and configurations\<close>

definition no_rules :: rules where
  "no_rules =
     \<lparr>r_model = None, r_collection = None, r_via = None, r_type = None, r_required = False,
      r_primaryKey = False, r_unique = False\<rparr>"

definition User :: collection where
  "User =
     \<lparr>identity = ''user'',
      attrs =
        [(''id'', no_rules\<lparr>r_type := Some ''integer'', r_primaryKey := True, r_unique := True\<rparr>),
         (''firstName'', no_rules\<lparr>r_type := Some ''string''\<rparr>),
         (''articles'', no_rules\<lparr>r_collection := Some ''article'', r_via := Some ''author''\<rparr>)],
      primaryKey = ''id''\<rparr>"

definition Article :: collection where
  "Article =
     \<lparr>identity = ''article'',
      attrs =
        [(''id'', no_rules\<lparr>r_type := Some ''integer'', r_primaryKey := True, r_unique := True\<rparr>),
         (''title'', no_rules\<lparr>r_type := Some ''string'', r_required := True\<rparr>),
         (''author'', no_rules\<lparr>r_model := Some ''user'', r_type := Some ''integer''\<rparr>)],
      primaryKey = ''id''\<rparr>"

text \<open>A collection whose identity is the plural field name of \<open>User\<close>.\<close>

definition Users :: collection where
  "Users =
     \<lparr>identity = ''users'',
      attrs = [(''id'', no_rules\<lparr>r_type := Some ''integer'', r_primaryKey := True\<rparr>)],
      primaryKey = ''id''\<rparr>"




text \<open>A configuration with the given collections and no other key.\<close>

definition config_of :: "collections \<Rightarrow> config" where
  "config_of cs = \<lparr>cfg_collections = Some cs, cfg_exposeQueryLanguage = None, cfg_unknown = []\<rparr>"

text \<open>
  Two behaviours of the constructor \<^verbatim>\<open>GraphQLSchema\<close>: one that checks nothing, and
  one that refuses a query type without fields.
\<close>

definition lenient :: "internals \<Rightarrow> bool" where
  "lenient st = True"

definition strict :: "internals \<Rightarrow> bool" where
  "strict st = (modelQueries st \<noteq> [])"

text \<open>Configurations: a mapping with one collection, with two, and without any.\<close>

definition users_only :: config where
  "users_only = config_of (CollObject [(''user'', User)])"

definition articles_only :: config where
  "articles_only = config_of (CollObject [(''article'', Article)])"


definition user_and_users :: config where
  "user_and_users = config_of (CollObject [(''user'', User), (''users'', Users)])"




text \<open>
  What a result of \<^verbatim>\<open>getGraphQlSchema\<close> shows of the schema: the names of the fields of
  the query type, each with the names of its arguments.
\<close>

definition signature :: "error + schema \<Rightarrow> error + (string \<times> string list) list" where
  "signature r =
     (case r of
        Inl e \<Rightarrow> Inl e
      | Inr s \<Rightarrow> Inr (map (\<lambda>nf. (fst nf, map fst (qf_args (snd nf)))) (query_fields s)))"






section \<open>Properties\<close>

subsection \<open>Strings and objects\<close>

lemma toLowerChar_idem: "toLowerChar (toLowerChar c) = toLowerChar c"
  by (simp add: toLowerChar_def)

lemma toLowerChar_toUpperChar: "toLowerChar (toUpperChar c) = toLowerChar c"
  by (simp add: toLowerChar_def toUpperChar_def)

lemma toLowerCase_idem: "toLowerCase (toLowerCase s) = toLowerCase s"
  by (simp add: toLowerCase_def toLowerChar_idem)

lemma toLowerCase_toUpperCase: "toLowerCase (toUpperCase s) = toLowerCase s"
  by (simp add: toLowerCase_def toUpperCase_def toLowerChar_toUpperChar)






subsection \<open>The type converter\<close>

lemma convertToGraphQlType_Some:
  "convertToGraphQlType (Some t) =
     Inr (if toLowerCase t = ''integer'' then GraphQLInt
          else if toLowerCase t = ''boolean'' then GraphQLBoolean
          else if toLowerCase t = ''float'' then GraphQLFloat
          else if toLowerCase t = ''json'' then GraphQLJson
          else GraphQLString)"
  unfolding convertToGraphQlType_def Let_def by simp

lemma convertToGraphQlType_cong:
  "toLowerCase t = toLowerCase u \<Longrightarrow>
   convertToGraphQlType (Some t) = convertToGraphQlType (Some u)"
  unfolding convertToGraphQlType_Some by (simp only:)

lemma convertToGraphQlType_Inr: "convertToGraphQlType ty = Inr t \<Longrightarrow> ty \<noteq> None"
  by (cases ty) (simp_all add: convertToGraphQlType_def)

text \<open>
  The older converter of \<^verbatim>\<open>src/lib/adapter.js\<close> agrees with the converter of
  \<^verbatim>\<open>src/adapter.js\<close> on every tag but json, which it sends to the string scalar, and
  it throws as well when the rules have no type.
\<close>

lemma convertToGraphQLType_lib_agrees:
  "toLowerCase t \<noteq> ''json'' \<Longrightarrow>
   convertToGraphQLType_lib (rs\<lparr>r_type := Some t\<rparr>) = convertToGraphQlType (Some t)"
  unfolding convertToGraphQlType_Some convertToGraphQLType_lib_def Let_def by simp

lemma convertToGraphQLType_lib_json:
  "toLowerCase t = ''json'' \<Longrightarrow>
   convertToGraphQLType_lib (rs\<lparr>r_type := Some t\<rparr>) = Inr GraphQLString"
  unfolding convertToGraphQLType_lib_def Let_def by simp

lemma convertToGraphQLType_lib_absent:
  "convertToGraphQLType_lib (rs\<lparr>r_type := None\<rparr>) = Inl TypeError"
  unfolding convertToGraphQLType_lib_def by simp

text \<open>
  Claim C7, as amended. On every type tag that is a string the converter returns a
  scalar type and never throws. The match ignores case: the result depends on the
  lower-cased tag only, so a tag, its upper-cased and its lower-cased spelling convert
  alike. The tags integer, boolean, float and json give the integer, boolean, float and
  JSON scalars; string gives the string scalar, and so does every other tag. (The claim
  as stated also promises the string scalar for an absent tag; see the counterexample.)
\<close>

theorem convertToGraphQlType_total_on_strings:
  "(\<exists>ty. convertToGraphQlType (Some t) = Inr ty)
   \<and> convertToGraphQlType (Some (toUpperCase t)) = convertToGraphQlType (Some t)
   \<and> convertToGraphQlType (Some (toLowerCase t)) = convertToGraphQlType (Some t)
   \<and> (toLowerCase t = ''string'' \<longrightarrow> convertToGraphQlType (Some t) = Inr GraphQLString)
   \<and> (toLowerCase t = ''integer'' \<longrightarrow> convertToGraphQlType (Some t) = Inr GraphQLInt)
   \<and> (toLowerCase t = ''boolean'' \<longrightarrow> convertToGraphQlType (Some t) = Inr GraphQLBoolean)
   \<and> (toLowerCase t = ''float'' \<longrightarrow> convertToGraphQlType (Some t) = Inr GraphQLFloat)
   \<and> (toLowerCase t = ''json'' \<longrightarrow> convertToGraphQlType (Some t) = Inr GraphQLJson)
   \<and> (toLowerCase t \<notin> {''integer'', ''boolean'', ''float'', ''json''}
        \<longrightarrow> convertToGraphQlType (Some t) = Inr GraphQLString)"
proof -
  have 1: "\<exists>ty. convertToGraphQlType (Some t) = Inr ty"
    unfolding convertToGraphQlType_Some by blast
  have 2: "convertToGraphQlType (Some (toUpperCase t)) = convertToGraphQlType (Some t)"
    by (rule convertToGraphQlType_cong) (rule toLowerCase_toUpperCase)
  have 3: "convertToGraphQlType (Some (toLowerCase t)) = convertToGraphQlType (Some t)"
    by (rule convertToGraphQlType_cong) (rule toLowerCase_idem)
  have 4: "toLowerCase t = ''string'' \<longrightarrow> convertToGraphQlType (Some t) = Inr GraphQLString"
    unfolding convertToGraphQlType_Some by simp
  have 5: "toLowerCase t = ''integer'' \<longrightarrow> convertToGraphQlType (Some t) = Inr GraphQLInt"
    unfolding convertToGraphQlType_Some by simp
  have 6: "toLowerCase t = ''boolean'' \<longrightarrow> convertToGraphQlType (Some t) = Inr GraphQLBoolean"
    unfolding convertToGraphQlType_Some by simp
  have 7: "toLowerCase t = ''float'' \<longrightarrow> convertToGraphQlType (Some t) = Inr GraphQLFloat"
    unfolding convertToGraphQlType_Some by simp
  have 8: "toLowerCase t = ''json'' \<longrightarrow> convertToGraphQlType (Some t) = Inr GraphQLJson"
    unfolding convertToGraphQlType_Some by simp
  have 9: "toLowerCase t \<notin> {''integer'', ''boolean'', ''float'', ''json''}
        \<longrightarrow> convertToGraphQlType (Some t) = Inr GraphQLString"
    unfolding convertToGraphQlType_Some by simp
  from 1 2 3 4 5 6 7 8 9 show ?thesis by blast
qed

text \<open>The tags Integer, JSON and date, through the theorem.\<close>

theorem convertToGraphQlType_total_on_strings_witness:
  "convertToGraphQlType (Some ''Integer'') = Inr GraphQLInt
   \<and> convertToGraphQlType (Some ''JSON'') = Inr GraphQLJson
   \<and> convertToGraphQlType (Some ''date'') = Inr GraphQLString"
  using convertToGraphQlType_total_on_strings [of "''Integer''"]
    convertToGraphQlType_total_on_strings [of "''JSON''"]
    convertToGraphQlType_total_on_strings [of "''date''"]
  by (simp add: toLowerCase_def toLowerChar_def)

text \<open>
  Claim C7 as stated fails for the absent tag: \<^verbatim>\<open>type.toLowerCase()\<close> on undefined
  throws a TypeError before the switch is reached, so the default case does not apply.
\<close>

theorem convertToGraphQlType_absent_tag_throws:
  "convertToGraphQlType None = Inl TypeError \<and> convertToGraphQlType None \<noteq> Inr GraphQLString"
  by (simp add: convertToGraphQlType_def)

subsection \<open>The literal parser\<close>









subsection \<open>The query-field builder\<close>


lemma fst_arg_of [simp]: "fst (arg_of kr) = fst kr"
  by (simp add: arg_of_def)



















lemma exposed_not_builtin:
  "exposed K kr \<Longrightarrow> fst kr \<notin> K"
  by (simp add: exposed_def)





subsection \<open>The loop over the collections\<close>

lemma builtin_args_frame [simp]:
  "builtin_args (st\<lparr>console := a, modelQueries := b\<rparr>) = builtin_args st"
  by (simp add: builtin_args_def)

lemma builtin_names_frame [simp]:
  "builtin_names (st\<lparr>console := a, modelQueries := b\<rparr>) = builtin_names st"
  by (simp add: builtin_names_def)

lemma lookup_type_frame [simp]:
  "lookup_type (st\<lparr>console := a, modelQueries := b\<rparr>) = lookup_type st"
  by (simp add: lookup_type_def fun_eq_iff)

lemma singular_field_frame [simp]:
  "singular_field (st\<lparr>console := a, modelQueries := b\<rparr>) = singular_field st"
  by (simp add: singular_field_def fun_eq_iff)

lemma plural_field_frame [simp]:
  "plural_field (st\<lparr>console := a, modelQueries := b\<rparr>) = plural_field st"
  by (simp add: plural_field_def fun_eq_iff)

lemma register_frame [simp]:
  "register (st\<lparr>console := a, modelQueries := b\<rparr>) = register st"
  by (simp add: register_def fun_eq_iff)

lemma warnings_frame [simp]:
  "warnings (st\<lparr>console := a, modelQueries := b\<rparr>) = warnings st"
  by (simp add: warnings_def fun_eq_iff)

lemma buildable_frame [simp]:
  "buildable (st\<lparr>console := a, modelQueries := b\<rparr>) = buildable st"
  by (simp add: buildable_def fun_eq_iff)

lemma field_named_frame [simp]:
  "field_named (st\<lparr>console := a, modelQueries := b\<rparr>) = field_named st"
  by (simp add: field_named_def fun_eq_iff)









subsection \<open>The schema assembler\<close>

lemmas run_defs = getGraphQlSchema_def joi_assert_def merged_def mutated_def getQueries_def
  buildType_def buildQueryFields_def builtin_args_def hasOwnProperty_def assign_def lookup_type_def
  convertToGraphQlType_def toLowerCase_def toLowerChar_def toUpperChar_def Let_def signature_def
  config_of_def defaults_def lenient_def strict_def no_rules_def

lemma articles_only_fresh:
  "signature (fst (getGraphQlSchema lenient articles_only defaults)) =
     Inr [(''article'', [''id'']),
          (''articles'', [''limit'', ''skip'', ''sort'', ''title'', ''author''])]"
  by (simp add: run_defs articles_only_def Article_def)

lemma articles_only_after_users_only:
  "getGraphQlSchema lenient users_only defaults = (r, st, cfg) \<Longrightarrow>
   signature (fst (getGraphQlSchema lenient articles_only st)) =
     Inr [(''user'', [''id'']),
          (''users'', [''limit'', ''skip'', ''sort'', ''firstName'']),
          (''article'', [''id'']),
          (''articles'', [''limit'', ''skip'', ''sort'', ''title'', ''author''])]
   \<and> fst (getGraphQlSchema lenient cfg st) = Inl ValidationError"
  by (auto simp add: run_defs articles_only_def users_only_def Article_def User_def)




text \<open>
  The schema built from the collections \<open>User\<close> and \<open>Users\<close>: one field named users,
  that of \<open>Users\<close>, with the arguments of a singular field.
\<close>

lemma user_and_users_schema:
  "signature (fst (getGraphQlSchema lenient user_and_users defaults)) =
     Inr [(''user'', [''id'']), (''users'', [''id'']),
          (''userss'', [''limit'', ''skip'', ''sort''])]"
  by (simp add: run_defs user_and_users_def Users_def User_def)

text \<open>
  Claim C1 fails on the code. The registries are keys of \<^verbatim>\<open>internals.defaults\<close>, which
  \<^verbatim>\<open>getGraphQlSchema\<close> never resets (the older adapter of \<^verbatim>\<open>src/lib/adapter.js\<close>
  resets its registries in \<^verbatim>\<open>getQueries\<close>). In a freshly loaded module the
  configuration with the collection \<open>Article\<close> alone gives a schema with the fields
  article and articles; after a build with the collection \<open>User\<close> alone, the same
  configuration gives a schema that has the fields user and users as well. And the
  object of the first build, passed again, is refused: the first build has written the
  keys \<^verbatim>\<open>modelQueries\<close> and \<^verbatim>\<open>types\<close> to it, which the validation does not allow.
\<close>

theorem registry_leaks_across_builds:
  "signature (fst (getGraphQlSchema lenient articles_only defaults)) =
     Inr [(''article'', [''id'']),
          (''articles'', [''limit'', ''skip'', ''sort'', ''title'', ''author''])]
   \<and> signature
        (fst (getGraphQlSchema lenient articles_only
                (fst (snd (getGraphQlSchema lenient users_only defaults))))) =
     Inr [(''user'', [''id'']),
          (''users'', [''limit'', ''skip'', ''sort'', ''firstName'']),
          (''article'', [''id'']),
          (''articles'', [''limit'', ''skip'', ''sort'', ''title'', ''author''])]
   \<and> fst (getGraphQlSchema lenient
             (snd (snd (getGraphQlSchema lenient users_only defaults)))
             (fst (snd (getGraphQlSchema lenient users_only defaults)))) =
     Inl ValidationError"
proof -
  obtain r st cfg where run: "getGraphQlSchema lenient users_only defaults = (r, st, cfg)"
    by (cases "getGraphQlSchema lenient users_only defaults") auto
  show ?thesis
    using articles_only_fresh articles_only_after_users_only [OF run] by (simp add: run)
qed




subsection \<open>The type builder and the resolvers\<close>






subsection \<open>The built states of the examples\<close>







subsection \<open>The resolver of a belongs-to field\<close>






subsection \<open>The resolver of a has-many field\<close>







end
